theory Spec2Isabelle
  imports Main "HOL-Library.Sublist"
begin

section \<open>Values shared by both packages\<close>

text \<open>
  Go strings are byte sequences and \<open>len\<close> counts bytes; they are modelled as
  \<^typ>\<open>string\<close> (a list of 8-bit characters), so \<^const>\<open>length\<close> is Go's \<open>len\<close>.

  A Go \<open>error\<close> is an interface value. The errors that occur here are built by
  \<open>errors.New\<close> and \<open>fmt.Errorf\<close> (\<open>ErrorString\<close>, the message), or come from
  \<open>net/url\<close>: \<open>url.EscapeError\<close> and \<open>url.InvalidHostError\<close> (both carry the
  offending text), the error for a bad port (built with \<open>%q\<close>; the port text is kept)
  and \<open>*url.Error\<close> with its fields \<open>Op\<close>, \<open>URL\<close> and \<open>Err\<close>. An index out of range is
  a run-time panic.
\<close>

datatype error =
    ErrorString string
  | EscapeError string
  | InvalidHostError string
  | InvalidPortError string
  | URLError string string error
  | Panic string

section \<open>Package cocoonmail: request construction and regional routing\<close>

subsection \<open>Data\<close>

text \<open>
  Modelled from the spec: the type \<open>rest.Request\<close>, the request descriptor with its
  method, base URL, headers and body. Its declaration is in package \<open>rest\<close>, which the
  source files import. The method is a string (the source assigns \<open>"POST"\<close> to it).
\<close>

record Request =
  Method :: string
  BaseURL :: string
  Headers :: "string \<rightharpoonup> string"
  Body :: string

record CocoonmailOptions =
  Key :: string
  Endpoint :: string
  Host :: string
  Subuser :: string

text \<open>
  Modelled from the spec: the unexported struct \<open>options\<close> that
  \<open>createCocoonmailRequest\<close> fills positionally with the authorization value, the
  endpoint, the host and the subuser. Its fields are \<open>Auth\<close>, \<open>Endpoint\<close>, \<open>Host\<close> and
  \<open>Subuser\<close> in Go; the last three carry a prefix here because record fields share one
  name space.
\<close>

record options =
  Auth :: string
  optEndpoint :: string
  optHost :: string
  optSubuser :: string

definition allowedRegionsHostMap :: "string \<rightharpoonup> string" where
  "allowedRegionsHostMap =
     map_of [(''eu'', ''https://api.eu.cocoonmail.com''),
             (''global'', ''https://webhook.cocoonmail.com'')]"

subsection \<open>The request builder\<close>

text \<open>
  Modelled from the spec: \<open>requestNew\<close>, the shared internal builder that
  \<open>createCocoonmailRequest\<close> ends in. The spec fixes what it produces: the base URL is
  the resolved host followed by the endpoint, the headers hold the authorization value
  under \<open>Authorization\<close>, and the on-behalf-of header is present exactly when the subuser
  is not empty. The spec calls the name of that header a fixed constant without spelling
  it; \<open>On-Behalf-Of\<close> stands for it. Method and body are left at their zero values for
  the caller to set.
\<close>

definition requestNew :: "options \<Rightarrow> Request" where
  "requestNew opts =
     \<lparr>Method = [],
      BaseURL = optHost opts @ optEndpoint opts,
      Headers = (if optSubuser opts \<noteq> []
                 then [''Authorization'' \<mapsto> Auth opts, ''On-Behalf-Of'' \<mapsto> optSubuser opts]
                 else [''Authorization'' \<mapsto> Auth opts]),
      Body = []\<rparr>"

definition createCocoonmailRequest :: "CocoonmailOptions \<Rightarrow> Request" where
  "createCocoonmailRequest sgOptions =
     (let opts = \<lparr>Auth = ''Bearer '' @ Key sgOptions,
                  optEndpoint = Endpoint sgOptions,
                  optHost = Host sgOptions,
                  optSubuser = Subuser sgOptions\<rparr>;
          opts = (if optHost opts = [] then opts\<lparr>optHost := ''https://webhook.cocoonmail.com''\<rparr>
                  else opts)
      in requestNew opts)"

definition GetRequest :: "string \<Rightarrow> string \<Rightarrow> string \<Rightarrow> Request" where
  "GetRequest key endpoint host =
     createCocoonmailRequest \<lparr>Key = key, Endpoint = endpoint, Host = host, Subuser = []\<rparr>"

definition GetRequestSubuser :: "string \<Rightarrow> string \<Rightarrow> string \<Rightarrow> string \<Rightarrow> Request" where
  "GetRequestSubuser key endpoint host subuser =
     createCocoonmailRequest \<lparr>Key = key, Endpoint = endpoint, Host = host, Subuser = subuser\<rparr>"

text \<open>\<open>NewSendClient\<close> wraps the request in a \<open>Client\<close>; the client is its request.\<close>

definition NewSendClient :: "string \<Rightarrow> Request" where
  "NewSendClient key = (GetRequest key ''/webhook/mail/send'' [])\<lparr>Method := ''POST''\<rparr>"

subsection \<open>Go's \<open>url.Parse\<close>\<close>

text \<open>
  \<open>extractEndpoint\<close> calls \<open>url.Parse\<close> of Go's standard library and reads the field
  \<open>Path\<close> of the result. The functions of this subsection follow \<open>net/url\<close> (as of
  Go 1.22) as far as it decides whether parsing fails and what \<open>Scheme\<close>, \<open>Opaque\<close>,
  \<open>Host\<close>, \<open>Path\<close>, \<open>RawQuery\<close> and \<open>Fragment\<close> are; the user information is validated
  as the library does, and its value, \<open>RawPath\<close>, \<open>RawFragment\<close> and the two flags of
  \<open>url.URL\<close> are not kept. A host in square brackets is accepted as that release
  accepts it; later releases also require the bracketed text to be an IPv6 address and
  so reject more, and no example below has a bracketed host. What holds whatever the
  parser answers is proved with the parser as an argument.
\<close>

record URL =
  Scheme :: string
  Opaque :: string
  URLHost :: string
  Path :: string
  RawQuery :: string
  Fragment :: string

text \<open>Bytes are compared through their codes, as Go compares \<open>byte\<close> values.\<close>

definition byte :: "char \<Rightarrow> nat" where
  "byte c = of_char c"

definition isLower :: "char \<Rightarrow> bool" where
  "isLower c \<longleftrightarrow> byte CHR ''a'' \<le> byte c \<and> byte c \<le> byte CHR ''z''"

definition isUpper :: "char \<Rightarrow> bool" where
  "isUpper c \<longleftrightarrow> byte CHR ''A'' \<le> byte c \<and> byte c \<le> byte CHR ''Z''"

definition isDigit :: "char \<Rightarrow> bool" where
  "isDigit c \<longleftrightarrow> byte CHR ''0'' \<le> byte c \<and> byte c \<le> byte CHR ''9''"

definition ishex :: "char \<Rightarrow> bool" where
  "ishex c \<longleftrightarrow> isDigit c
     \<or> (byte CHR ''a'' \<le> byte c \<and> byte c \<le> byte CHR ''f'')
     \<or> (byte CHR ''A'' \<le> byte c \<and> byte c \<le> byte CHR ''F'')"

definition unhex :: "char \<Rightarrow> nat" where
  "unhex c =
     (if isDigit c then byte c - byte CHR ''0''
      else if byte CHR ''a'' \<le> byte c \<and> byte c \<le> byte CHR ''f'' then byte c - byte CHR ''a'' + 10
      else if byte CHR ''A'' \<le> byte c \<and> byte c \<le> byte CHR ''F'' then byte c - byte CHR ''A'' + 10
      else 0)"

definition ToLower :: "string \<Rightarrow> string" where
  "ToLower s = map (\<lambda>c. if isUpper c then char_of (byte c + 32) else c) s"

text \<open>
  \<open>strings.Cut\<close> for a separator of one byte: the text before the first separator, the
  text after it, and whether there is one. \<open>LastCut\<close> splits at the last separator,
  which the library does with \<open>strings.LastIndex\<close> and two slices.
\<close>

definition Cut :: "string \<Rightarrow> char \<Rightarrow> string \<times> string \<times> bool" where
  "Cut s sep =
     (if sep \<in> set s
      then (takeWhile (\<lambda>c. c \<noteq> sep) s, tl (dropWhile (\<lambda>c. c \<noteq> sep) s), True)
      else (s, [], False))"

definition LastCut :: "string \<Rightarrow> char \<Rightarrow> (string \<times> string) option" where
  "LastCut s sep =
     (if sep \<in> set s
      then Some (rev (tl (dropWhile (\<lambda>c. c \<noteq> sep) (rev s))), rev (takeWhile (\<lambda>c. c \<noteq> sep) (rev s)))
      else None)"

text \<open>
  \<open>unescape\<close> first checks that every \<open>%\<close> is followed by two hexadecimal digits (and,
  in a host, that only what may be escaped there is escaped and that no byte needs
  escaping), then decodes. Of the library's modes, those that \<open>url.Parse\<close> uses.
\<close>

datatype encoding = encodePath | encodeHost | encodeZone | encodeUserPassword | encodeFragment

definition shouldEscapeHost :: "char \<Rightarrow> bool" where
  \<open>shouldEscapeHost c \<longleftrightarrow>
     \<not> (isLower c \<or> isUpper c \<or> isDigit c
        \<or> c \<in> set ''!$&'' \<or> c = CHR 0x27 \<or> c \<in> set ''()*+,;=:[]<>"''
        \<or> c \<in> set ''-_.~'')\<close>

fun unescapeCheck :: "encoding \<Rightarrow> string \<Rightarrow> error option" where
  "unescapeCheck mode [] = None"
| "unescapeCheck mode (c # cs) =
     (if c = CHR ''%'' then
        (if length cs < 2 \<or> \<not> ishex (cs ! 0) \<or> \<not> ishex (cs ! 1)
         then Some (EscapeError (take 3 (c # cs)))
         else if mode = encodeHost \<and> unhex (cs ! 0) < 8 \<and> take 3 (c # cs) \<noteq> ''%25''
         then Some (EscapeError (take 3 (c # cs)))
         else if mode = encodeZone \<and> take 3 (c # cs) \<noteq> ''%25''
                 \<and> unhex (cs ! 0) * 16 + unhex (cs ! 1) \<noteq> byte CHR '' ''
                 \<and> shouldEscapeHost (char_of (unhex (cs ! 0) * 16 + unhex (cs ! 1)))
         then Some (EscapeError (take 3 (c # cs)))
         else unescapeCheck mode (drop 2 cs))
      else if (mode = encodeHost \<or> mode = encodeZone) \<and> byte c < 128 \<and> shouldEscapeHost c
      then Some (InvalidHostError [c])
      else unescapeCheck mode cs)"

fun unescapeDecode :: "string \<Rightarrow> string" where
  "unescapeDecode [] = []"
| "unescapeDecode (c # cs) =
     (if c = CHR ''%'' then char_of (unhex (cs ! 0) * 16 + unhex (cs ! 1)) # unescapeDecode (drop 2 cs)
      else c # unescapeDecode cs)"

definition unescape :: "string \<Rightarrow> encoding \<Rightarrow> error + string" where
  "unescape s mode =
     (case unescapeCheck mode s of
        Some err \<Rightarrow> Inl err
      | None \<Rightarrow> Inr (unescapeDecode s))"

text \<open>\<open>getScheme\<close>: the loop over the index \<open>i\<close> of \<open>rawURL\<close>.\<close>

fun getSchemeFrom :: "string \<Rightarrow> nat \<Rightarrow> string \<Rightarrow> error + string \<times> string" where
  "getSchemeFrom rawURL i [] = Inr ([], rawURL)"
| "getSchemeFrom rawURL i (c # cs) =
     (if isLower c \<or> isUpper c then getSchemeFrom rawURL (Suc i) cs
      else if isDigit c \<or> c = CHR ''+'' \<or> c = CHR ''-'' \<or> c = CHR ''.''
      then (if i = 0 then Inr ([], rawURL) else getSchemeFrom rawURL (Suc i) cs)
      else if c = CHR '':''
      then (if i = 0 then Inl (ErrorString ''missing protocol scheme'')
            else Inr (take i rawURL, drop (Suc i) rawURL))
      else Inr ([], rawURL))"

definition getScheme :: "string \<Rightarrow> error + string \<times> string" where
  "getScheme rawURL = getSchemeFrom rawURL 0 rawURL"

text \<open>The authority: host with an optional port, after optional user information.\<close>

definition validOptionalPort :: "string \<Rightarrow> bool" where
  "validOptionalPort port \<longleftrightarrow>
     (case port of [] \<Rightarrow> True | c # cs \<Rightarrow> c = CHR '':'' \<and> list_all isDigit cs)"

definition validUserinfo :: "string \<Rightarrow> bool" where
  \<open>validUserinfo s \<longleftrightarrow>
     list_all (\<lambda>r. isUpper r \<or> isLower r \<or> isDigit r
                 \<or> r \<in> set ''-._:~!$&'' \<or> r = CHR 0x27 \<or> r \<in> set ''()*+,;=%@'') s\<close>

fun IndexFrom :: "string \<Rightarrow> string \<Rightarrow> nat \<Rightarrow> nat option" where
  "IndexFrom substr [] i = (if substr = [] then Some i else None)"
| "IndexFrom substr (c # cs) i =
     (if prefix substr (c # cs) then Some i else IndexFrom substr cs (Suc i))"

definition Index :: "string \<Rightarrow> string \<Rightarrow> nat option" where
  "Index s substr = IndexFrom substr s 0"

definition parseHost :: "string \<Rightarrow> error + string" where
  "parseHost host =
     (if prefix ''['' host then
        (case LastCut host CHR '']'' of
           None \<Rightarrow> Inl (ErrorString ''missing ']' in host'')
         | Some (front, colonPort) \<Rightarrow>
             if \<not> validOptionalPort colonPort then Inl (InvalidPortError colonPort)
             else (case Index front ''%25'' of
                     Some zone \<Rightarrow>
                       (case unescape (take zone host) encodeHost of
                          Inl err \<Rightarrow> Inl err
                        | Inr host1 \<Rightarrow>
                            (case unescape (drop zone front) encodeZone of
                               Inl err \<Rightarrow> Inl err
                             | Inr host2 \<Rightarrow>
                                 (case unescape (drop (length front) host) encodeHost of
                                    Inl err \<Rightarrow> Inl err
                                  | Inr host3 \<Rightarrow> Inr (host1 @ host2 @ host3))))
                   | None \<Rightarrow> unescape host encodeHost))
      else
        (case LastCut host CHR '':'' of
           Some (front, port) \<Rightarrow>
             if \<not> validOptionalPort (CHR '':'' # port) then Inl (InvalidPortError (CHR '':'' # port))
             else unescape host encodeHost
         | None \<Rightarrow> unescape host encodeHost))"

definition parseAuthority :: "string \<Rightarrow> error + string" where
  "parseAuthority authority =
     (case LastCut authority CHR ''@'' of
        None \<Rightarrow> parseHost authority
      | Some (userinfo, hostpart) \<Rightarrow>
          (case parseHost hostpart of
             Inl err \<Rightarrow> Inl err
           | Inr host \<Rightarrow>
               if \<not> validUserinfo userinfo then Inl (ErrorString ''net/url: invalid userinfo'')
               else if CHR '':'' \<notin> set userinfo then
                 (case unescape userinfo encodeUserPassword of
                    Inl err \<Rightarrow> Inl err
                  | Inr _ \<Rightarrow> Inr host)
               else
                 (case Cut userinfo CHR '':'' of (username, password, _) \<Rightarrow>
                    (case unescape username encodeUserPassword of
                       Inl err \<Rightarrow> Inl err
                     | Inr _ \<Rightarrow>
                         (case unescape password encodeUserPassword of
                            Inl err \<Rightarrow> Inl err
                          | Inr _ \<Rightarrow> Inr host)))))"

text \<open>\<open>parse\<close> with \<open>viaRequest = false\<close>, and \<open>url.Parse\<close>, which cuts the fragment off first.\<close>

definition stringContainsCTLByte :: "string \<Rightarrow> bool" where
  "stringContainsCTLByte s \<longleftrightarrow> list_ex (\<lambda>b. byte b < byte CHR '' '' \<or> byte b = 127) s"

definition setPath :: "URL \<Rightarrow> string \<Rightarrow> error + URL" where
  "setPath u p =
     (case unescape p encodePath of
        Inl err \<Rightarrow> Inl err
      | Inr path \<Rightarrow> Inr (u\<lparr>Path := path\<rparr>))"

definition emptyURL :: URL where
  "emptyURL = \<lparr>Scheme = [], Opaque = [], URLHost = [], Path = [], RawQuery = [], Fragment = []\<rparr>"

definition parse :: "string \<Rightarrow> error + URL" where
  "parse rawURL =
     (if stringContainsCTLByte rawURL
      then Inl (ErrorString ''net/url: invalid control character in URL'')
      else if rawURL = ''*'' then Inr (emptyURL\<lparr>Path := ''*''\<rparr>)
      else
        (case getScheme rawURL of
           Inl err \<Rightarrow> Inl err
         | Inr (scheme, rest) \<Rightarrow>
             (let url = emptyURL\<lparr>Scheme := ToLower scheme\<rparr>;
                  (rest, query) =
                    (if suffix ''?'' rest \<and> count_list rest CHR ''?'' = 1 then (butlast rest, [])
                     else (case Cut rest CHR ''?'' of (front, back, _) \<Rightarrow> (front, back)));
                  url = url\<lparr>RawQuery := query\<rparr>
              in if \<not> prefix ''/'' rest \<and> Scheme url \<noteq> [] then Inr (url\<lparr>Opaque := rest\<rparr>)
                 else if \<not> prefix ''/'' rest \<and> CHR '':'' \<in> set (fst (Cut rest CHR ''/''))
                 then Inl (ErrorString ''first path segment in URL cannot contain colon'')
                 else if (Scheme url \<noteq> [] \<or> \<not> prefix ''///'' rest) \<and> prefix ''//'' rest then
                   (case Cut (drop 2 rest) CHR ''/'' of (authority, back, found) \<Rightarrow>
                      (case parseAuthority authority of
                         Inl err \<Rightarrow> Inl err
                       | Inr host \<Rightarrow>
                           setPath (url\<lparr>URLHost := host\<rparr>) (if found then CHR ''/'' # back else [])))
                 else setPath url rest)))"

definition Parse :: "string \<Rightarrow> error + URL" where
  "Parse rawURL =
     (case Cut rawURL CHR ''#'' of (u, frag, _) \<Rightarrow>
        (case parse u of
           Inl err \<Rightarrow> Inl (URLError ''parse'' u err)
         | Inr url \<Rightarrow>
             if frag = [] then Inr url
             else (case unescape frag encodeFragment of
                     Inl err \<Rightarrow> Inl (URLError ''parse'' rawURL err)
                   | Inr f \<Rightarrow> Inr (url\<lparr>Fragment := f\<rparr>))))"

subsection \<open>The region router\<close>

text \<open>
  \<open>extractEndpoint\<close> and \<open>SetDataResidency\<close> take the parser as their first argument:
  what is proved of them below holds whatever \<open>url.Parse\<close> answers. Go returns a pair of
  a value and an error; the pair is kept.
\<close>

definition extractEndpoint :: "(string \<Rightarrow> error + URL) \<Rightarrow> string \<Rightarrow> string \<times> error option" where
  "extractEndpoint urlParse link =
     (case urlParse link of
        Inl err \<Rightarrow> ([], Some err)
      | Inr parsedURL \<Rightarrow> (Path parsedURL, None))"

definition SetDataResidency ::
  "(string \<Rightarrow> error + URL) \<Rightarrow> Request \<Rightarrow> string \<Rightarrow> Request \<times> error option" where
  \<open>SetDataResidency urlParse request region =
     (case allowedRegionsHostMap region of
        None \<Rightarrow> (request, Some (ErrorString ''error: region can only be "eu" or "global"''))
      | Some regionalHost \<Rightarrow>
          (case extractEndpoint urlParse (BaseURL request) of
             (endpoint, Some err) \<Rightarrow> (request, Some err)
           | (endpoint, None) \<Rightarrow> (request\<lparr>BaseURL := regionalHost @ endpoint\<rparr>, None)))\<close>

section \<open>Package mail: the payload model and address validation\<close>

subsection \<open>Data\<close>

text \<open>
  A Go slice or map may be \<open>nil\<close>; \<open>None\<close> is the \<open>nil\<close> container and \<open>Some\<close> a
  container that exists, possibly with nothing in it. The values of type
  \<open>interface{}\<close> are of an arbitrary type \<open>'v\<close>. A pointer to a struct that nothing
  else holds is the struct.
\<close>

definition maxEmailDomainLength :: nat where
  "maxEmailDomainLength = 255"

definition maxEmailLocalLength :: nat where
  "maxEmailLocalLength = 64"

definition maxEmailLength :: nat where
  "maxEmailLength = maxEmailDomainLength + maxEmailLocalLength + 1"

record 'v MailRecipient =
  Email :: string
  Name :: string
  FirstName :: string
  MiddleName :: string
  LastName :: string
  Attributes :: "(string \<rightharpoonup> 'v) option"
  Lists :: "string list option"
  Tags :: "string list option"
  Gender :: string
  Age :: int
  Address1 :: string
  Address2 :: string
  City :: string
  State :: string
  Country :: string
  PostalCode :: string
  Designation :: string
  Company :: string
  Industry :: string
  Description :: string
  AnniversaryDate :: string

record MailAttachment =
  Filename :: string
  ContentType :: string
  Data :: string

record MailAttachmentRemote =
  RemoteLink :: string

record 'v MailSendRequest =
  TransactionalID :: string
  To :: "'v MailRecipient list option"
  ReplyTo :: string
  CustomParameter :: "(string \<rightharpoonup> 'v) option"
  Attachments :: "MailAttachment list option"
  AttachmentsRemote :: "MailAttachmentRemote list option"
  AddEmailAddressToContact :: bool
  ScheduledAt :: string
  AllowClickTracking :: bool
  AllowOpenTracking :: bool
  BypassBounceControl :: bool
  BypassUnsubscribeList :: bool
  EnableViewInBrowser :: bool

text \<open>
  \<open>mail.Address\<close> of Go's \<open>net/mail\<close>, with its fields \<open>Name\<close> and \<open>Address\<close> (prefixed
  here: \<open>Name\<close> is a field of the recipient as well).
\<close>

record mail_Address =
  addrName :: string
  addrAddress :: string

subsection \<open>Constructors\<close>

text \<open>Fields that a composite literal does not mention have their zero value.\<close>

definition NewMailSendRequest :: "'v MailSendRequest" where
  "NewMailSendRequest =
     \<lparr>TransactionalID = [],
      To = Some [],
      ReplyTo = [],
      CustomParameter = Some Map.empty,
      Attachments = Some [],
      AttachmentsRemote = Some [],
      AddEmailAddressToContact = False,
      ScheduledAt = [],
      AllowClickTracking = False,
      AllowOpenTracking = False,
      BypassBounceControl = False,
      BypassUnsubscribeList = False,
      EnableViewInBrowser = False\<rparr>"

definition NewMailRecipient :: "string \<Rightarrow> string \<Rightarrow> 'v MailRecipient" where
  "NewMailRecipient name email =
     \<lparr>Email = email,
      Name = name,
      FirstName = [],
      MiddleName = [],
      LastName = [],
      Attributes = Some Map.empty,
      Lists = Some [],
      Tags = Some [],
      Gender = [],
      Age = 0,
      Address1 = [],
      Address2 = [],
      City = [],
      State = [],
      Country = [],
      PostalCode = [],
      Designation = [],
      Company = [],
      Industry = [],
      Description = [],
      AnniversaryDate = []\<rparr>"

subsection \<open>\<open>ParseEmail\<close>\<close>

text \<open>
  \<open>strings.Split\<close> for a separator of one byte: the pieces between the separators, one
  more than there are separators.
\<close>

fun Split :: "string \<Rightarrow> char \<Rightarrow> string list" where
  "Split [] sep = [[]]"
| "Split (c # cs) sep =
     (if c = sep then [] # Split cs sep
      else (case Split cs sep of
              [] \<Rightarrow> [[c]]
            | p # ps \<Rightarrow> (c # p) # ps))"

text \<open>The verb \<open>%d\<close> of \<open>fmt.Errorf\<close> on a number that is not negative.\<close>

function Itoa :: "nat \<Rightarrow> string" where
  "Itoa n =
     (if n < 10 then [char_of (of_char CHR ''0'' + n)]
      else Itoa (n div 10) @ [char_of (of_char CHR ''0'' + n mod 10)])"
  by pat_completeness auto
termination
  by (relation "measure id") auto

declare Itoa.simps [simp del]

text \<open>
  Lines 195 and 196 of the source: the address is split at every \<open>@\<close>, the first piece
  is the local part and the second the domain; \<open>parts[1]\<close> panics when there is one
  piece only.
\<close>

definition localAndDomain :: "string \<Rightarrow> error + string \<times> string" where
  "localAndDomain address =
     (case Split address CHR ''@'' of
        local # domain # _ \<Rightarrow> Inr (local, domain)
      | parts \<Rightarrow>
          Inl (Panic (''runtime error: index out of range [1] with length '' @ Itoa (length parts))))"

text \<open>Lines 191 to 206 of the source: what \<open>ParseEmail\<close> does with a parsed address.\<close>

definition checkAddress :: "mail_Address \<Rightarrow> error + 'v MailRecipient" where
  "checkAddress e =
     (if length (addrAddress e) > maxEmailLength
      then Inl (ErrorString (''Invalid email length. Total length should not exceed ''
                  @ Itoa maxEmailLength @ '' characters.''))
      else
        (case localAndDomain (addrAddress e) of
           Inl err \<Rightarrow> Inl err
         | Inr (local, domain) \<Rightarrow>
             if length domain > maxEmailDomainLength
             then Inl (ErrorString (''Invalid email length. Domain length should not exceed ''
                         @ Itoa maxEmailDomainLength @ '' characters.''))
             else if length local > maxEmailLocalLength
             then Inl (ErrorString (''Invalid email length. Local part length should not exceed ''
                         @ Itoa maxEmailLocalLength @ '' characters.''))
             else Inr (NewMailRecipient (addrName e) (addrAddress e))))"

text \<open>
  \<open>mail.ParseAddress\<close> belongs to Go's standard library and is an argument of
  \<open>ParseEmail\<close>. It answers with an error or with a \<open>mail.Address\<close> whose field
  \<open>Address\<close> is the local part, without the quotes of a quoted local part, followed by
  \<open>@\<close> and the domain.
\<close>

definition ParseEmail ::
  "(string \<Rightarrow> error + mail_Address) \<Rightarrow> string \<Rightarrow> error + 'v MailRecipient" where
  "ParseEmail ParseAddress emailInfo =
     (case ParseAddress emailInfo of
        Inl err \<Rightarrow> Inl err
      | Inr e \<Rightarrow> checkAddress e)"

section \<open>Properties of the request builder\<close>

text \<open>
  Claim C1, as the code has it. For every value of the build options, an empty key
  included, the builder returns a request whose \<open>Authorization\<close> header is exactly
  \<open>"Bearer "\<close> followed by the key, through \<open>createCocoonmailRequest\<close>, \<open>GetRequest\<close>
  and \<open>GetRequestSubuser\<close> alike. The builder returns a request and nothing else: it
  has no failure result.
\<close>

theorem createCocoonmailRequest_authorization:
  "Headers (createCocoonmailRequest sgOptions) ''Authorization'' = Some (''Bearer '' @ Key sgOptions)
   \<and> Headers (GetRequest key endpoint host) ''Authorization'' = Some (''Bearer '' @ key)
   \<and> Headers (GetRequestSubuser key endpoint host subuser) ''Authorization'' = Some (''Bearer '' @ key)"
  by (simp add: GetRequest_def GetRequestSubuser_def createCocoonmailRequest_def requestNew_def Let_def)

text \<open>
  Claim C1 as stated says that an empty key makes the builder fail with a configuration
  error. With the empty key the builder produces this request, whose \<open>Authorization\<close>
  header is \<open>"Bearer "\<close>.
\<close>

theorem createCocoonmailRequest_empty_key:
  "createCocoonmailRequest \<lparr>Key = [], Endpoint = ''/webhook/mail/send'', Host = [], Subuser = []\<rparr> =
     \<lparr>Method = [], BaseURL = ''https://webhook.cocoonmail.com/webhook/mail/send'',
      Headers = [''Authorization'' \<mapsto> ''Bearer ''], Body = []\<rparr>"
  by (simp add: createCocoonmailRequest_def requestNew_def)

text \<open>
  Claim C6. The base URL of the request is the resolved host followed by the endpoint,
  where the resolved host is the default production host when the given host is empty
  and the given host, unchanged, otherwise. With the key \<open>abc123\<close>, the endpoint
  \<open>/webhook/mail/send\<close> and an empty host, the \<open>Authorization\<close> header is
  \<open>Bearer abc123\<close> and the base URL is
  \<open>https://webhook.cocoonmail.com/webhook/mail/send\<close>.
\<close>

theorem createCocoonmailRequest_baseURL:
  "BaseURL (createCocoonmailRequest sgOptions) =
     (if Host sgOptions = [] then ''https://webhook.cocoonmail.com'' else Host sgOptions)
       @ Endpoint sgOptions
   \<and> Headers (GetRequest ''abc123'' ''/webhook/mail/send'' []) ''Authorization'' = Some ''Bearer abc123''
   \<and> BaseURL (GetRequest ''abc123'' ''/webhook/mail/send'' []) =
       ''https://webhook.cocoonmail.com/webhook/mail/send''"
  by (simp add: GetRequest_def createCocoonmailRequest_def requestNew_def Let_def)

theorem createCocoonmailRequest_baseURL_witness:
  "BaseURL (createCocoonmailRequest
      \<lparr>Key = ''abc123'', Endpoint = ''/webhook/mail/send'', Host = ''http://localhost:8080'',
       Subuser = []\<rparr>) = ''http://localhost:8080/webhook/mail/send''"
  using createCocoonmailRequest_baseURL
          [of "\<lparr>Key = ''abc123'', Endpoint = ''/webhook/mail/send'', Host = ''http://localhost:8080'',
               Subuser = []\<rparr>"]
  by simp

section \<open>Properties of the region router\<close>

subsection \<open>The region table and the requests used as examples\<close>

lemma allowedRegionsHostMap_cases:
  "allowedRegionsHostMap region =
     (if region = ''eu'' then Some ''https://api.eu.cocoonmail.com''
      else if region = ''global'' then Some ''https://webhook.cocoonmail.com''
      else None)"
  by (simp add: allowedRegionsHostMap_def)

lemma regionalHost_no_trailing_slash:
  "allowedRegionsHostMap region = Some regionalHost \<Longrightarrow>
     regionalHost \<noteq> [] \<and> last regionalHost \<noteq> CHR ''/''"
  by (auto simp: allowedRegionsHostMap_cases split: if_splits)

text \<open>
  Two equal bytes next to each other in \<open>h @ p\<close> lie both in \<open>h\<close> or both in \<open>p\<close> when
  \<open>h\<close> does not end in that byte.
\<close>

lemma junction_no_double_slash:
  assumes "h \<noteq> []" and "last h \<noteq> c"
    and "Suc i < length (h @ p)" and "(h @ p) ! i = c" and "(h @ p) ! Suc i = c"
  shows "Suc i < length h \<or> length h \<le> i"
proof (rule ccontr)
  assume "\<not> (Suc i < length h \<or> length h \<le> i)"
  then have "i = length h - 1" and "i < length h" by auto
  with assms(1,4) have "last h = c" by (simp add: nth_append last_conv_nth)
  with assms(2) show False by simp
qed

lemma NewSendClient_abc123:
  "NewSendClient ''abc123'' =
     \<lparr>Method = ''POST'', BaseURL = ''https://webhook.cocoonmail.com/webhook/mail/send'',
      Headers = [''Authorization'' \<mapsto> ''Bearer abc123''], Body = []\<rparr>"
  by (simp add: NewSendClient_def GetRequest_def createCocoonmailRequest_def requestNew_def)


lemma Parse_send:
  "Parse ''https://webhook.cocoonmail.com/webhook/mail/send'' =
     Inr \<lparr>Scheme = ''https'', Opaque = [], URLHost = ''webhook.cocoonmail.com'',
          Path = ''/webhook/mail/send'', RawQuery = [], Fragment = []\<rparr>"
  by code_simp

lemma Parse_eu_send:
  "Parse ''https://api.eu.cocoonmail.com/webhook/mail/send'' =
     Inr \<lparr>Scheme = ''https'', Opaque = [], URLHost = ''api.eu.cocoonmail.com'',
          Path = ''/webhook/mail/send'', RawQuery = [], Fragment = []\<rparr>"
  by code_simp



lemma SetDataResidency_eu_send:
  "SetDataResidency Parse (NewSendClient ''abc123'') ''eu'' =
     ((NewSendClient ''abc123'')\<lparr>BaseURL := ''https://api.eu.cocoonmail.com/webhook/mail/send''\<rparr>, None)"
  by (simp add: SetDataResidency_def extractEndpoint_def allowedRegionsHostMap_cases
        NewSendClient_abc123 Parse_send)

lemma SetDataResidency_us:
  "snd (SetDataResidency Parse (NewSendClient ''abc123'') ''us'') \<noteq> None"
  by (simp add: SetDataResidency_def allowedRegionsHostMap_cases)

subsection \<open>An unrecognized region\<close>

text \<open>
  Claim C2, as the code has it. For every request and every region other than \<open>eu\<close>
  and \<open>global\<close>, whatever the parser, \<open>SetDataResidency\<close> returns the request it was
  given together with the error whose message is the fixed text
  \<open>error: region can only be "eu" or "global"\<close>. The message names the two allowed
  identifiers; it does not depend on the region that was asked for.
\<close>

theorem SetDataResidency_unknown_region:
  assumes "region \<noteq> ''eu''" and "region \<noteq> ''global''"
  shows \<open>SetDataResidency urlParse request region =
           (request, Some (ErrorString ''error: region can only be "eu" or "global"''))
         \<and> sublist ''"eu"'' ''error: region can only be "eu" or "global"''
         \<and> sublist ''"global"'' ''error: region can only be "eu" or "global"''\<close>
proof -
  have "allowedRegionsHostMap region = None"
    using assms by (simp add: allowedRegionsHostMap_cases)
  then show ?thesis
    by (simp add: SetDataResidency_def sublist_code)
qed

theorem SetDataResidency_unknown_region_witness:
  \<open>SetDataResidency Parse (NewSendClient ''abc123'') ''us'' =
     (NewSendClient ''abc123'', Some (ErrorString ''error: region can only be "eu" or "global"''))\<close>
  using SetDataResidency_unknown_region [of "''us''" Parse "NewSendClient ''abc123''"]
  by simp

text \<open>
  Claim C2 as stated says that the error names the invalid identifier that was asked
  for. For the region \<open>us\<close> the message of the error does not contain \<open>us\<close>.
\<close>

theorem SetDataResidency_error_omits_region:
  \<open>snd (SetDataResidency Parse (NewSendClient ''abc123'') ''us'') =
     Some (ErrorString ''error: region can only be "eu" or "global"'')
   \<and> \<not> sublist ''us'' ''error: region can only be "eu" or "global"''\<close>
  by (simp add: SetDataResidency_def allowedRegionsHostMap_cases sublist_code)

subsection \<open>A recognized region\<close>

text \<open>
  Claim C7. For a recognized region and a request whose base URL the parser accepts,
  \<open>SetDataResidency\<close> succeeds, and the new base URL is the host of the region followed
  by the path of the parsed URL and by nothing else of it. No double slash is
  introduced: two slashes next to each other in the new base URL lie both in the host
  or both in the path. For the region \<open>eu\<close> and the base URL
  \<open>https://webhook.cocoonmail.com/webhook/mail/send\<close> the new base URL is
  \<open>https://api.eu.cocoonmail.com/webhook/mail/send\<close> (the witness).
\<close>

theorem SetDataResidency_rewrites_host:
  assumes "region = ''eu'' \<or> region = ''global''"
    and "urlParse (BaseURL request) = Inr u"
  shows "\<exists>regionalHost. allowedRegionsHostMap region = Some regionalHost
           \<and> SetDataResidency urlParse request region =
               (request\<lparr>BaseURL := regionalHost @ Path u\<rparr>, None)
           \<and> (\<forall>i. Suc i < length (regionalHost @ Path u)
                    \<and> (regionalHost @ Path u) ! i = CHR ''/''
                    \<and> (regionalHost @ Path u) ! Suc i = CHR ''/''
                  \<longrightarrow> Suc i < length regionalHost \<or> length regionalHost \<le> i)"
proof -
  from assms(1) obtain h where h: "allowedRegionsHostMap region = Some h"
    by (auto simp: allowedRegionsHostMap_cases)
  have "SetDataResidency urlParse request region = (request\<lparr>BaseURL := h @ Path u\<rparr>, None)"
    using h assms(2) by (simp add: SetDataResidency_def extractEndpoint_def)
  moreover have "h \<noteq> []" and "last h \<noteq> CHR ''/''"
    using regionalHost_no_trailing_slash [OF h] by simp_all
  then have "\<forall>i. Suc i < length (h @ Path u) \<and> (h @ Path u) ! i = CHR ''/''
                \<and> (h @ Path u) ! Suc i = CHR ''/'' \<longrightarrow> Suc i < length h \<or> length h \<le> i"
    using junction_no_double_slash [of h "CHR ''/''" _ "Path u"] by blast
  ultimately show ?thesis using h by blast
qed

theorem SetDataResidency_rewrites_host_witness:
  "SetDataResidency Parse (NewSendClient ''abc123'') ''eu'' =
     ((NewSendClient ''abc123'')\<lparr>BaseURL := ''https://api.eu.cocoonmail.com/webhook/mail/send''\<rparr>, None)"
proof -
  have p: "Parse (BaseURL (NewSendClient ''abc123'')) =
             Inr \<lparr>Scheme = ''https'', Opaque = [], URLHost = ''webhook.cocoonmail.com'',
                  Path = ''/webhook/mail/send'', RawQuery = [], Fragment = []\<rparr>"
    by (simp add: NewSendClient_abc123 Parse_send)
  have r: "''eu'' = ''eu'' \<or> ''eu'' = ''global''" by simp
  show ?thesis
    using SetDataResidency_rewrites_host [of "''eu''" Parse "NewSendClient ''abc123''", OF r p]
    by (simp add: allowedRegionsHostMap_cases)
qed

subsection \<open>Applying the router twice\<close>


















subsection \<open>What the router leaves alone\<close>

text \<open>
  Claim C10. For every request and every region string, whatever the parser,
  \<open>SetDataResidency\<close> leaves the method, the headers and the body as they were. When it
  succeeds, the result differs from the request in the base URL at most; when it fails,
  the result is the request.
\<close>

theorem SetDataResidency_frame:
  "Method (fst (SetDataResidency urlParse request region)) = Method request
   \<and> Headers (fst (SetDataResidency urlParse request region)) = Headers request
   \<and> Body (fst (SetDataResidency urlParse request region)) = Body request
   \<and> (snd (SetDataResidency urlParse request region) = None \<longrightarrow>
        fst (SetDataResidency urlParse request region) =
          request\<lparr>BaseURL := BaseURL (fst (SetDataResidency urlParse request region))\<rparr>)
   \<and> (snd (SetDataResidency urlParse request region) \<noteq> None \<longrightarrow>
        fst (SetDataResidency urlParse request region) = request)"
  by (simp add: SetDataResidency_def extractEndpoint_def split: option.split sum.split)

theorem SetDataResidency_frame_witness:
  "fst (SetDataResidency Parse (NewSendClient ''abc123'') ''eu'') =
     (NewSendClient ''abc123'')\<lparr>BaseURL := ''https://api.eu.cocoonmail.com/webhook/mail/send''\<rparr>
   \<and> fst (SetDataResidency Parse (NewSendClient ''abc123'') ''us'') = NewSendClient ''abc123''"
proof -
  have ok: "snd (SetDataResidency Parse (NewSendClient ''abc123'') ''eu'') = None"
    and url: "BaseURL (fst (SetDataResidency Parse (NewSendClient ''abc123'') ''eu'')) =
                ''https://api.eu.cocoonmail.com/webhook/mail/send''"
    by (simp_all add: SetDataResidency_eu_send)
  show ?thesis
    using SetDataResidency_frame [of Parse "NewSendClient ''abc123''" "''eu''"]
          SetDataResidency_frame [of Parse "NewSendClient ''abc123''" "''us''"]
          ok url SetDataResidency_us
    by simp
qed

section \<open>Properties of the payload model and of address validation\<close>

text \<open>
  Claim C9. The request that \<open>NewMailSendRequest\<close> returns has a recipient list, an
  attachment list, a remote-attachment list and a custom-parameter mapping that exist
  and are empty.
\<close>

theorem NewMailSendRequest_containers:
  "To (NewMailSendRequest :: 'v MailSendRequest) = Some []
   \<and> Attachments (NewMailSendRequest :: 'v MailSendRequest) = Some []
   \<and> AttachmentsRemote (NewMailSendRequest :: 'v MailSendRequest) = Some []
   \<and> CustomParameter (NewMailSendRequest :: 'v MailSendRequest) = Some Map.empty"
  by (simp add: NewMailSendRequest_def)

subsection \<open>Splitting at the separator\<close>

lemma Itoa_values: "Itoa 320 = ''320''" "Itoa 255 = ''255''" "Itoa 64 = ''64''"
  by code_simp+

lemma Split_not_Nil: "Split s sep \<noteq> []"
  by (induction s) (auto split: list.split)

lemma Split_at_first_sep:
  "sep \<notin> set l \<Longrightarrow> Split (l @ sep # r) sep = l # Split r sep"
  by (induction l) (auto split: list.split)

lemma hd_Split: "hd (Split s sep) = takeWhile (\<lambda>c. c \<noteq> sep) s"
  by (induction s) (auto split: list.split simp: Split_not_Nil)

text \<open>
  When the text before an \<open>@\<close> has no \<open>@\<close>, that text is the local part, and the domain
  is what follows up to the next \<open>@\<close> or the end.
\<close>

lemma localAndDomain_single:
  assumes "CHR ''@'' \<notin> set l"
  shows "localAndDomain (l @ CHR ''@'' # r) = Inr (l, takeWhile (\<lambda>c. c \<noteq> CHR ''@'') r)"
proof -
  obtain p ps where ps: "Split r CHR ''@'' = p # ps"
    using Split_not_Nil [of r "CHR ''@''"] by (cases "Split r CHR ''@''") auto
  then have "p = takeWhile (\<lambda>c. c \<noteq> CHR ''@'') r"
    using hd_Split [of r "CHR ''@''"] by simp
  then show ?thesis
    using ps assms by (simp add: localAndDomain_def Split_at_first_sep)
qed

lemma first_sep_decomp:
  assumes "sep \<in> set s"
  shows "s = takeWhile (\<lambda>c. c \<noteq> sep) s @ sep # tl (dropWhile (\<lambda>c. c \<noteq> sep) s)"
proof -
  from assms have "dropWhile (\<lambda>c. c \<noteq> sep) s \<noteq> []"
    by (auto simp: dropWhile_eq_Nil_conv)
  moreover from this have "hd (dropWhile (\<lambda>c. c \<noteq> sep) s) = sep"
    using hd_dropWhile [of "\<lambda>c. c \<noteq> sep" s] by simp
  ultimately have "dropWhile (\<lambda>c. c \<noteq> sep) s = sep # tl (dropWhile (\<lambda>c. c \<noteq> sep) s)"
    by (cases "dropWhile (\<lambda>c. c \<noteq> sep) s") simp_all
  then show ?thesis
    using takeWhile_dropWhile_id [of "\<lambda>c. c \<noteq> sep" s] by simp
qed

text \<open>
  An address with an \<open>@\<close> never makes the split panic, and the two pieces are no longer
  than the texts on the two sides of any \<open>@\<close> of the address.
\<close>

lemma localAndDomain_total:
  "\<exists>local domain. localAndDomain (l @ CHR ''@'' # d) = Inr (local, domain)"
proof (cases "CHR ''@'' \<in> set l")
  case False
  then show ?thesis using localAndDomain_single by blast
next
  case True
  let ?ne = "\<lambda>c. c \<noteq> CHR ''@''"
  have "l = takeWhile ?ne l @ CHR ''@'' # tl (dropWhile ?ne l)"
    using True by (rule first_sep_decomp)
  then have "l @ CHR ''@'' # d = takeWhile ?ne l @ CHR ''@'' # (tl (dropWhile ?ne l) @ CHR ''@'' # d)"
    by (metis append_Cons append_assoc)
  moreover have "CHR ''@'' \<notin> set (takeWhile ?ne l)"
    by (auto dest: set_takeWhileD)
  ultimately show ?thesis
    using localAndDomain_single by metis
qed

lemma localAndDomain_lengths:
  assumes "localAndDomain (l @ CHR ''@'' # d) = Inr (local, domain)"
  shows "length local \<le> length l \<and> length domain \<le> max (length l) (length d)"
proof (cases "CHR ''@'' \<in> set l")
  case False
  then have "localAndDomain (l @ CHR ''@'' # d) = Inr (l, takeWhile (\<lambda>c. c \<noteq> CHR ''@'') d)"
    by (rule localAndDomain_single)
  with assms have "local = l" and "domain = takeWhile (\<lambda>c. c \<noteq> CHR ''@'') d" by simp_all
  then show ?thesis
    using length_takeWhile_le [of "\<lambda>c. c \<noteq> CHR ''@''" d] by simp
next
  case True
  let ?ne = "\<lambda>c. c \<noteq> CHR ''@''"
  define l1 where "l1 = takeWhile ?ne l"
  define l2 where "l2 = tl (dropWhile ?ne l)"
  have l: "l = l1 @ CHR ''@'' # l2"
    unfolding l1_def l2_def using True by (rule first_sep_decomp)
  have l1: "CHR ''@'' \<notin> set l1"
    unfolding l1_def by (auto dest: set_takeWhileD)
  have "localAndDomain (l1 @ CHR ''@'' # (l2 @ CHR ''@'' # d)) =
          Inr (l1, takeWhile ?ne (l2 @ CHR ''@'' # d))"
    using l1 by (rule localAndDomain_single)
  with assms l have lo: "local = l1" and dom: "domain = takeWhile ?ne (l2 @ CHR ''@'' # d)"
    by simp_all
  have "takeWhile ?ne (l2 @ CHR ''@'' # d) = takeWhile ?ne l2"
    by (induction l2) simp_all
  with dom have "length domain \<le> length l2"
    using length_takeWhile_le [of ?ne l2] by simp
  moreover have "length l = length l1 + 1 + length l2"
    by (subst l) simp
  ultimately show ?thesis
    using lo by simp
qed

subsection \<open>Addresses within the limits\<close>

text \<open>
  Claim C5. Let the parser accept the string and give an address that is a local part,
  an \<open>@\<close> and a domain, with at most 320 bytes in all, at most 255 in the domain and at
  most 64 in the local part (the local part may itself contain \<open>@\<close>, as a quoted one
  can). Then \<open>ParseEmail\<close> succeeds, and the recipient it returns has the parsed display
  name as its name (empty when the parser found none) and the normalized address as its
  email.
\<close>

theorem ParseEmail_accepts_within_limits:
  assumes "ParseAddress emailInfo = Inr e"
    and "addrAddress e = local @ ''@'' @ domain"
    and "length (addrAddress e) \<le> 320"
    and "length domain \<le> 255"
    and "length local \<le> 64"
  shows "ParseEmail ParseAddress emailInfo =
           Inr (NewMailRecipient (addrName e) (addrAddress e) :: 'v MailRecipient)
         \<and> Name (NewMailRecipient (addrName e) (addrAddress e) :: 'v MailRecipient) = addrName e
         \<and> Email (NewMailRecipient (addrName e) (addrAddress e) :: 'v MailRecipient) = addrAddress e"
proof -
  have a: "addrAddress e = local @ CHR ''@'' # domain"
    using assms(2) by simp
  obtain lo do where ld: "localAndDomain (addrAddress e) = Inr (lo, do)"
    using localAndDomain_total [of local domain] a by auto
  then have "length lo \<le> length local" and "length do \<le> max (length local) (length domain)"
    using localAndDomain_lengths [of local domain lo do] a by simp_all
  with assms(4,5) have "length lo \<le> 64" and "length do \<le> 255" by simp_all
  with ld assms(3)
  have "checkAddress e = (Inr (NewMailRecipient (addrName e) (addrAddress e)) :: error + 'v MailRecipient)"
    by (simp add: checkAddress_def maxEmailLength_def maxEmailDomainLength_def maxEmailLocalLength_def)
  then show ?thesis
    using assms(1) by (simp add: ParseEmail_def NewMailRecipient_def)
qed

theorem ParseEmail_accepts_within_limits_witness:
  "ParseEmail (\<lambda>s. Inr \<lparr>addrName = ''Ada'', addrAddress = ''ada@example.com''\<rparr>)
       ''Ada <ada@example.com>'' =
     Inr (NewMailRecipient ''Ada'' ''ada@example.com'' :: string MailRecipient)"
  using ParseEmail_accepts_within_limits
          [where ?'v = string, of "\<lambda>s. Inr \<lparr>addrName = ''Ada'', addrAddress = ''ada@example.com''\<rparr>"
              "''Ada <ada@example.com>''" "\<lparr>addrName = ''Ada'', addrAddress = ''ada@example.com''\<rparr>"
              "''ada''" "''example.com''"]
  by simp

subsection \<open>The local part and the domain of a quoted local part\<close>

text \<open>
  The order of the checks, for an address with one \<open>@\<close>: total length, then domain
  length, then local length, each with its limit in the message.
\<close>

lemma checkAddress_order:
  assumes "addrAddress e = local @ ''@'' @ domain"
    and "CHR ''@'' \<notin> set local" and "CHR ''@'' \<notin> set domain"
  shows "(checkAddress e :: error + 'v MailRecipient) =
     (if length (addrAddress e) > 320
      then Inl (ErrorString ''Invalid email length. Total length should not exceed 320 characters.'')
      else if length domain > 255
      then Inl (ErrorString ''Invalid email length. Domain length should not exceed 255 characters.'')
      else if length local > 64
      then Inl (ErrorString ''Invalid email length. Local part length should not exceed 64 characters.'')
      else Inr (NewMailRecipient (addrName e) (addrAddress e)))"
proof -
  have "localAndDomain (addrAddress e) = Inr (local, domain)"
    using assms localAndDomain_single [of local domain] by (auto simp: takeWhile_eq_all_conv)
  then show ?thesis
    by (simp add: checkAddress_def Itoa_values maxEmailLength_def maxEmailDomainLength_def
          maxEmailLocalLength_def)
qed

text \<open>
  Claim C3 says that the address is split at its last \<open>@\<close>. \<open>mail.ParseAddress\<close> gives
  the address \<open>a@b@example.com\<close> for the input \<open>"a@b"@example.com\<close>, whose quoted local
  part is \<open>a@b\<close>. The source takes \<open>a\<close> for the local part and \<open>b\<close> for the domain;
  the split at the last \<open>@\<close> gives \<open>a@b\<close> and \<open>example.com\<close>.
\<close>

theorem localAndDomain_quoted_at:
  "localAndDomain ''a@b@example.com'' = Inr (''a'', ''b'')
   \<and> LastCut ''a@b@example.com'' CHR ''@'' = Some (''a@b'', ''example.com'')"
  by (simp add: localAndDomain_def LastCut_def)

text \<open>
  Claim C4 says that an address that violates a limit is answered with the error of the
  first limit violated, and that a local part of 65 bytes with a short domain gives the
  error of the local length. The address whose quoted local part is \<open>a@\<close> followed by
  63 times \<open>b\<close> has a local part of 65 bytes and the domain \<open>x.com\<close>; the source
  accepts it.
\<close>

theorem checkAddress_long_quoted_local:
  "(checkAddress \<lparr>addrName = [], addrAddress = ''a@'' @ replicate 63 CHR ''b'' @ ''@x.com''\<rparr>
      :: error + string MailRecipient) =
     Inr (NewMailRecipient [] (''a@'' @ replicate 63 CHR ''b'' @ ''@x.com''))
   \<and> LastCut (''a@'' @ replicate 63 CHR ''b'' @ ''@x.com'') CHR ''@'' =
       Some (''a@'' @ replicate 63 CHR ''b'', ''x.com'')
   \<and> length (''a@'' @ replicate 63 CHR ''b'') = 65"
proof -
  have ld: "localAndDomain (''a@'' @ replicate 63 CHR ''b'' @ ''@x.com'') =
              Inr (''a'', replicate 63 CHR ''b'')"
    by code_simp
  have lc: "LastCut (''a@'' @ replicate 63 CHR ''b'' @ ''@x.com'') CHR ''@'' =
              Some (''a@'' @ replicate 63 CHR ''b'', ''x.com'')"
    by code_simp
  show ?thesis
    using ld lc
    by (simp add: checkAddress_def maxEmailLength_def maxEmailDomainLength_def
          maxEmailLocalLength_def)
qed

end
